theory Spec2Isabelle
  imports Main
begin

section \<open>Values that cross the program's boundary\<close>

text \<open>
  Python dictionaries and parsed JSON values. A dictionary is an association list in
  insertion order, as Python keeps it.
\<close>

datatype json =
    JNull
  | JBool bool
  | JNum int
  | JStr string
  | JArr "json list"
  | JObj "(string \<times> json) list"

fun dict_get :: "json \<Rightarrow> string \<Rightarrow> json option" where
  "dict_get (JObj kvs) k = map_of kvs k"
| "dict_get _ k = None"

text \<open>\<^verbatim>\<open>sep.join(parts)\<close> of Python's \<^verbatim>\<open>str\<close>.\<close>

fun join :: "string \<Rightarrow> string list \<Rightarrow> string" where
  "join sep [] = []"
| "join sep [x] = x"
| "join sep (x # y # ys) = x @ sep @ join sep (y # ys)"

section \<open>The tool provider: \<^verbatim>\<open>run_command\<close> (wifi_diagnostics_mcp.py)\<close>

text \<open>
  What \<^verbatim>\<open>subprocess.run(cmd, capture_output=True, text=True, shell=shell, timeout=30)\<close>
  can do: return a completed process (return code, stdout, stderr), raise
  \<^verbatim>\<open>subprocess.TimeoutExpired\<close>, or raise another \<^verbatim>\<open>Exception\<close> whose \<^verbatim>\<open>str\<close> is
  carried. The call itself is a parameter of the model; it receives the command, the
  \<^verbatim>\<open>shell\<close> flag and the timeout in seconds.
\<close>

datatype run_outcome =
    CompletedProcess int string string
  | TimeoutExpired
  | OtherException string

type_synonym subprocess_run = "string list \<Rightarrow> bool \<Rightarrow> nat \<Rightarrow> run_outcome"

definition run_command :: "subprocess_run \<Rightarrow> string list \<Rightarrow> bool \<Rightarrow> json" where
  "run_command run cmd shell =
     (case run cmd shell 30 of
        CompletedProcess returncode out err \<Rightarrow>
          JObj [(''success'', JBool (returncode = 0)),
                (''stdout'', JStr out),
                (''stderr'', JStr err),
                (''command'', JStr (join '' '' cmd))]
      | TimeoutExpired \<Rightarrow>
          JObj [(''success'', JBool False),
                (''error'', JStr ''Command timed out''),
                (''command'', JStr (join '' '' cmd))]
      | OtherException e \<Rightarrow>
          JObj [(''success'', JBool False),
                (''error'', JStr e),
                (''command'', JStr (join '' '' cmd))])"

section \<open>The chat client (mcp_chatgpt_client.py): data\<close>

text \<open>
  A Python exception caught by \<^verbatim>\<open>except Exception as e\<close>, carrying \<^verbatim>\<open>str(e)\<close>, the only
  thing the handlers read. Signals outside \<^verbatim>\<open>Exception\<close> (\<^verbatim>\<open>KeyboardInterrupt\<close>,
  task cancellation) are not modelled.
\<close>

datatype pyexc = Exception string

fun str :: "pyexc \<Rightarrow> string" where
  "str (Exception m) = m"

text \<open>
  What a call to an external party can do: return a value, raise, or never answer. The
  source awaits these calls with no time limit of its own, so the third case is part of
  the model; a function whose result depends on such a call returns an option or a
  \<open>flow\<close>, with \<open>None\<close> and \<open>Stuck\<close> for not returning.
\<close>

datatype 'a outcome = Returned 'a | Raised pyexc | Hung

text \<open>One tool call of a completion response: \<^verbatim>\<open>id\<close>, \<^verbatim>\<open>function.name\<close>, \<^verbatim>\<open>function.arguments\<close>.\<close>

record tool_call =
  call_id :: string
  function_name :: string
  function_arguments :: string

text \<open>\<^verbatim>\<open>response.choices[i].message\<close>: content and tool calls, each possibly \<^verbatim>\<open>None\<close>.\<close>

record message =
  content :: "string option"
  tool_calls :: "tool_call list option"

record completion =
  choices :: "message list"

text \<open>
  The entries of \<^verbatim>\<open>chat_history\<close>: the three dictionary shapes the client builds and the
  response's message object, which line 164 appends as it is (its role is assistant).
\<close>

datatype entry =
    Dict_user string
  | Dict_assistant "string option"
  | Dict_tool string string
  | Message_obj message

fun role :: "entry \<Rightarrow> string" where
  "role (Dict_user c) = ''user''"
| "role (Dict_assistant c) = ''assistant''"
| "role (Dict_tool i c) = ''tool''"
| "role (Message_obj m) = ''assistant''"

text \<open>
  A part of a tool result: one with a \<^verbatim>\<open>text\<close> attribute, or any other object, of which
  the client reads \<^verbatim>\<open>str(content)\<close> only.
\<close>

datatype content_part = TextContent string | OtherContent string

fun part_text :: "content_part \<Rightarrow> string" where
  "part_text (TextContent t) = t"
| "part_text (OtherContent s) = s"

text \<open>An MCP tool descriptor; \<^verbatim>\<open>inputSchema\<close> is \<open>None\<close> when the attribute is missing.\<close>

record mcp_tool =
  description :: "string option"
  inputSchema :: "json option"

text \<open>
  The external parties, as parameters of the model. Each field gives the outcome of one
  call from its arguments:
  \<^item> \<open>create\<close>: \<^verbatim>\<open>openai_client.chat.completions.create\<close> with \<^verbatim>\<open>messages\<close>, \<^verbatim>\<open>tools\<close> and
    \<^verbatim>\<open>tool_choice\<close> (\<open>None\<close> where the argument is \<^verbatim>\<open>None\<close> or not passed);
  \<^item> \<open>json_loads\<close>: \<^verbatim>\<open>json.loads\<close>, which returns or raises;
  \<^item> \<open>format_arguments\<close>: \<^verbatim>\<open>str\<close> of the parsed arguments inside the f-string;
  \<^item> \<open>stdio_client\<close>: entering \<^verbatim>\<open>stdio_client(params)\<close> and \<^verbatim>\<open>ClientSession(read, write)\<close>;
  \<^item> \<open>initialize\<close>, \<open>call_tool\<close>: the two awaited session calls;
  \<^item> \<open>aexit\<close>: leaving the two \<^verbatim>\<open>async with\<close> blocks.
\<close>

record env =
  create :: "entry list \<Rightarrow> json list option \<Rightarrow> string option \<Rightarrow> completion outcome"
  json_loads :: "string \<Rightarrow> pyexc + json"
  format_arguments :: "json \<Rightarrow> string"
  stdio_client :: "string list option \<Rightarrow> unit outcome"
  initialize :: "unit outcome"
  call_tool :: "string \<Rightarrow> json \<Rightarrow> content_part list outcome"
  aexit :: "unit outcome"

text \<open>
  The fields of \<^verbatim>\<open>MCPChatGPTClient\<close> that the modelled methods read or write.
  \<open>openai_client\<close> is false while the attribute is \<^verbatim>\<open>None\<close>. A queue is the list of its
  items, oldest first; \<open>response_queue\<close> and \<open>status_queue\<close> have no modelled consumer,
  so they hold every item put so far. \<open>chat_display\<close> lists the (sender, message) pairs
  passed to \<^verbatim>\<open>display_message\<close>.
\<close>

record client =
  openai_client :: bool
  mcp_server_params :: "string list option"
  mcp_tools :: "(string \<times> mcp_tool) list"
  chat_history :: "entry list"
  message_queue :: "string list"
  response_queue :: "(string \<times> string option) list"
  status_queue :: "string list"
  input_entry :: string
  chat_display :: "(string \<times> string) list"

text \<open>How a block of statements ends: normally, by an exception, or never; the state is
  the one reached, since assignments made before an exception stay.\<close>

datatype flow = Done client | Throws pyexc client | Stuck

section \<open>The chat client: tool catalogue and tool broker\<close>

definition mcp_tools_to_openai_format :: "client \<Rightarrow> json list" where
  "mcp_tools_to_openai_format s =
     map (\<lambda>(tool_name, tool).
            JObj [(''type'', JStr ''function''),
                  (''function'',
                   JObj [(''name'', JStr tool_name),
                         (''description'',
                          (case description tool of None \<Rightarrow> JNull | Some d \<Rightarrow> JStr d)),
                         (''parameters'',
                          (case inputSchema tool of
                             Some schema \<Rightarrow> schema
                           | None \<Rightarrow> JObj [(''type'', JStr ''object''),
                                           (''properties'', JObj [])]))])])
         (mcp_tools s)"

text \<open>Lines 121 to 136: the statements inside the two \<^verbatim>\<open>async with\<close> blocks.\<close>

definition session_body :: "env \<Rightarrow> string \<Rightarrow> json \<Rightarrow> string outcome" where
  "session_body env tool_name arguments =
     (case initialize env of
        Hung \<Rightarrow> Hung
      | Raised e \<Rightarrow> Raised e
      | Returned _ \<Rightarrow>
          (case call_tool env tool_name arguments of
             Hung \<Rightarrow> Hung
           | Raised e \<Rightarrow> Raised e
           | Returned result_content \<Rightarrow>
               Returned (if result_content \<noteq> []
                         then join [CHR 0x0A] (map part_text result_content)
                         else ''Tool executed successfully (no output)'')))"

text \<open>
  Lines 118 and 119: the body runs once both context managers are entered, and leaving
  them follows the body whether it returned or raised; an exception raised on the way
  out replaces the body's result.
\<close>

definition with_session :: "env \<Rightarrow> string list option \<Rightarrow> string outcome \<Rightarrow> string outcome" where
  "with_session env params body =
     (case stdio_client env params of
        Hung \<Rightarrow> Hung
      | Raised e \<Rightarrow> Raised e
      | Returned _ \<Rightarrow>
          (case body of
             Hung \<Rightarrow> Hung
           | r \<Rightarrow> (case aexit env of
                    Hung \<Rightarrow> Hung
                  | Raised e \<Rightarrow> Raised e
                  | Returned _ \<Rightarrow> r)))"

text \<open>\<open>None\<close>: the call never returns.\<close>

definition execute_mcp_tool :: "env \<Rightarrow> client \<Rightarrow> string \<Rightarrow> json \<Rightarrow> string option" where
  "execute_mcp_tool env s tool_name arguments =
     (case with_session env (mcp_server_params s) (session_body env tool_name arguments) of
        Returned text \<Rightarrow> Some text
      | Raised e \<Rightarrow> Some (''Error executing tool '' @ tool_name @ '': '' @ str e)
      | Hung \<Rightarrow> None)"

section \<open>The chat client: one exchange\<close>

text \<open>The wrench sign U+1F527 that starts the tool notice, in UTF-8.\<close>

definition wrench :: string where
  "wrench = [CHR 0xF0, CHR 0x9F, CHR 0x94, CHR 0xA7]"

text \<open>\<^verbatim>\<open>self.openai_client.chat.completions.create(...)\<close>; on \<^verbatim>\<open>None\<close> the attribute access
  raises.\<close>

definition completions_create ::
  "env \<Rightarrow> client \<Rightarrow> json list option \<Rightarrow> string option \<Rightarrow> completion outcome" where
  "completions_create env s tools tool_choice =
     (if openai_client s then create env (chat_history s) tools tool_choice
      else Raised (Exception (CHR 0x27 # ''NoneType'' @ CHR 0x27 # '' object has no attribute ''
                              @ CHR 0x27 # ''chat'' @ [CHR 0x27])))"

text \<open>\<^verbatim>\<open>response.choices[0].message\<close>.\<close>

definition first_message :: "completion \<Rightarrow> pyexc + message" where
  "first_message response =
     (case choices response of
        [] \<Rightarrow> Inl (Exception ''list index out of range'')
      | m # _ \<Rightarrow> Inr m)"

text \<open>Lines 166 to 181: the loop over the tool calls of one response.\<close>

fun tool_calls_loop :: "env \<Rightarrow> client \<Rightarrow> tool_call list \<Rightarrow> flow" where
  "tool_calls_loop env s [] = Done s"
| "tool_calls_loop env s (tc # rest) =
     (case json_loads env (function_arguments tc) of
        Inl e \<Rightarrow> Throws e s
      | Inr arguments \<Rightarrow>
          (let tool_name = function_name tc;
               s1 = s\<lparr>response_queue := response_queue s @
                       [(''tool'', Some (wrench @ '' Calling tool: '' @ tool_name @ '' with ''
                                         @ format_arguments env arguments))]\<rparr>
           in case execute_mcp_tool env s1 tool_name arguments of
                None \<Rightarrow> Stuck
              | Some tool_result \<Rightarrow>
                  tool_calls_loop env
                    (s1\<lparr>chat_history := chat_history s1 @ [Dict_tool (call_id tc) tool_result]\<rparr>)
                    rest))"

text \<open>Lines 184 to 191: the follow-up completion call and its assistant entry.\<close>

definition final_response :: "env \<Rightarrow> client \<Rightarrow> flow" where
  "final_response env s =
     (case completions_create env s None None of
        Hung \<Rightarrow> Stuck
      | Raised e \<Rightarrow> Throws e s
      | Returned response \<Rightarrow>
          (case first_message response of
             Inl e \<Rightarrow> Throws e s
           | Inr m \<Rightarrow>
               (let final_message = content m
                in Done (s\<lparr>chat_history := chat_history s @ [Dict_assistant final_message],
                           response_queue := response_queue s @ [(''assistant'', final_message)]\<rparr>))))"

text \<open>Lines 147 and 157: the \<^verbatim>\<open>tools\<close> and \<^verbatim>\<open>tool_choice\<close> arguments of the first call.\<close>

definition request_tools :: "client \<Rightarrow> json list option" where
  "request_tools s = (if mcp_tools s \<noteq> [] then Some (mcp_tools_to_openai_format s) else None)"

definition request_tool_choice :: "json list option \<Rightarrow> string option" where
  "request_tool_choice tools = (case tools of Some (t # ts) \<Rightarrow> Some ''auto'' | _ \<Rightarrow> None)"

text \<open>Lines 144 to 197: the \<^verbatim>\<open>try\<close> block of \<^verbatim>\<open>chat_with_gpt\<close>.\<close>

definition chat_try :: "env \<Rightarrow> client \<Rightarrow> string \<Rightarrow> flow" where
  "chat_try env s0 msg =
     (let s = s0\<lparr>chat_history := chat_history s0 @ [Dict_user msg]\<rparr>;
          tools = request_tools s
      in case completions_create env s tools (request_tool_choice tools) of
           Hung \<Rightarrow> Stuck
         | Raised e \<Rightarrow> Throws e s
         | Returned response \<Rightarrow>
             (case first_message response of
                Inl e \<Rightarrow> Throws e s
              | Inr message_obj \<Rightarrow>
                  (case tool_calls message_obj of
                     Some (tc # tcs) \<Rightarrow>
                       (case tool_calls_loop env
                               (s\<lparr>chat_history := chat_history s @ [Message_obj message_obj]\<rparr>)
                               (tc # tcs) of
                          Done s' \<Rightarrow> final_response env s'
                        | Throws e s' \<Rightarrow> Throws e s'
                        | Stuck \<Rightarrow> Stuck)
                   | _ \<Rightarrow>
                       Done (s\<lparr>chat_history := chat_history s @ [Dict_assistant (content message_obj)],
                               response_queue := response_queue s @
                                 [(''assistant'', content message_obj)]\<rparr>))))"

text \<open>\<^verbatim>\<open>chat_with_gpt\<close>: the \<^verbatim>\<open>try\<close> block and its \<^verbatim>\<open>except Exception\<close> handler (lines 199
  to 204). \<open>None\<close>: the call never returns.\<close>

definition chat_with_gpt :: "env \<Rightarrow> client \<Rightarrow> string \<Rightarrow> client option" where
  "chat_with_gpt env s msg =
     (case chat_try env s msg of
        Done s' \<Rightarrow> Some s'
      | Throws e s' \<Rightarrow>
          Some (s'\<lparr>response_queue := response_queue s' @
                     [(''error'', Some (''Error communicating with ChatGPT: '' @ str e))]\<rparr>)
      | Stuck \<Rightarrow> None)"

section \<open>The chat client: the worker loop\<close>

text \<open>
  One pass through the body of \<^verbatim>\<open>while True\<close> in \<^verbatim>\<open>async_worker\<close>: \<^verbatim>\<open>get_nowait\<close> on an
  empty queue raises \<^verbatim>\<open>queue.Empty\<close>, which the inner handler passes over. The result
  says whether the loop was left by \<^verbatim>\<open>break\<close>. Nothing in the body raises into the
  outer handler, since \<open>chat_with_gpt\<close> catches what its block raises.
\<close>

definition worker_iteration :: "env \<Rightarrow> client \<Rightarrow> (bool \<times> client) option" where
  "worker_iteration env s =
     (case message_queue s of
        [] \<Rightarrow> Some (False, s)
      | m # queue \<Rightarrow>
          (if m = ''QUIT'' then Some (True, s\<lparr>message_queue := queue\<rparr>)
           else (case chat_with_gpt env (s\<lparr>message_queue := queue\<rparr>) m of
                   None \<Rightarrow> None
                 | Some s' \<Rightarrow> Some (False, s'))))"

text \<open>\<^verbatim>\<open>message_queue.put\<close> by another thread, for each message of a list in turn.\<close>

definition put_messages :: "string list \<Rightarrow> client \<Rightarrow> client" where
  "put_messages ms s = s\<lparr>message_queue := message_queue s @ ms\<rparr>"

text \<open>
  The loop of \<^verbatim>\<open>async_worker\<close>, observed for as many passes as the schedule is long. The
  worker reads the queue only at the start of a pass, so what the interactive thread
  does meanwhile is given by a schedule: its \<open>i\<close>-th element lists the messages put on
  the queue after the poll of pass \<open>i - 1\<close> (while that pass's exchange ran, or during
  the sleep) and before the poll of pass \<open>i\<close>. The result is \<open>None\<close> when a pass never
  returns, and otherwise the state reached with a flag that the loop has ended.
\<close>

fun async_worker :: "env \<Rightarrow> string list list \<Rightarrow> client \<Rightarrow> (bool \<times> client) option" where
  "async_worker env [] s = Some (False, s)"
| "async_worker env (arrived # schedule) s =
     (case worker_iteration env (put_messages arrived s) of
        None \<Rightarrow> None
      | Some (quit, s') \<Rightarrow> if quit then Some (True, s') else async_worker env schedule s')"

section \<open>The chat client: the interactive side\<close>

text \<open>\<^verbatim>\<open>str.strip()\<close>: white space is removed at both ends. Characters are bytes here; the
  set is that of \<^verbatim>\<open>str.isspace\<close> below code point 256.\<close>

definition isspace :: "char \<Rightarrow> bool" where
  "isspace c \<longleftrightarrow> c \<in> set [CHR 0x09, CHR 0x0A, CHR 0x0B, CHR 0x0C, CHR 0x0D,
                          CHR 0x1C, CHR 0x1D, CHR 0x1E, CHR 0x1F, CHR 0x20,
                          CHR 0x85, CHR 0xA0]"

definition strip :: "string \<Rightarrow> string" where
  "strip s = rev (dropWhile isspace (rev (dropWhile isspace s)))"

text \<open>The time stamp and the colour that \<^verbatim>\<open>display_message\<close> adds are left out.\<close>

definition display_message :: "client \<Rightarrow> string \<Rightarrow> string \<Rightarrow> client" where
  "display_message s msg sender = s\<lparr>chat_display := chat_display s @ [(sender, msg)]\<rparr>"

definition send_message_sync :: "client \<Rightarrow> client" where
  "send_message_sync s0 =
     (let msg = strip (input_entry s0)
      in if msg = [] then s0
         else (let s = display_message (s0\<lparr>input_entry := []\<rparr>) msg ''user''
               in if \<not> openai_client s
                  then display_message s
                         ''OpenAI API not connected. Please check your API key.'' ''error''
                  else s\<lparr>message_queue := message_queue s @ [msg]\<rparr>))"

text \<open>\<^verbatim>\<open>on_closing\<close> puts the shutdown sentinel; joining the thread and destroying the
  window are outside the model.\<close>

definition on_closing :: "client \<Rightarrow> client" where
  "on_closing s = s\<lparr>message_queue := message_queue s @ [''QUIT'']\<rparr>"

section \<open>Notions used in the statements\<close>

text \<open>Every external call returns or raises: none is left unanswered.\<close>

definition answers :: "env \<Rightarrow> bool" where
  "answers env \<longleftrightarrow>
     (\<forall>msgs tools choice. create env msgs tools choice \<noteq> Hung)
     \<and> (\<forall>params. stdio_client env params \<noteq> Hung)
     \<and> initialize env \<noteq> Hung
     \<and> (\<forall>tool_name arguments. call_tool env tool_name arguments \<noteq> Hung)
     \<and> aexit env \<noteq> Hung"

text \<open>The entries of a transcript with role user and with role tool, the state that a
  flow reached, and the outbound events of kind error, in order.\<close>

definition user_entries :: "entry list \<Rightarrow> entry list" where
  "user_entries es = filter (\<lambda>e. role e = ''user'') es"

definition tool_entries :: "entry list \<Rightarrow> entry list" where
  "tool_entries es = filter (\<lambda>e. role e = ''tool'') es"

fun reached :: "flow \<Rightarrow> client option" where
  "reached (Done s) = Some s"
| "reached (Throws e s) = Some s"
| "reached Stuck = None"

definition error_events :: "(string \<times> string option) list \<Rightarrow> (string \<times> string option) list" where
  "error_events evs = filter (\<lambda>ev. fst ev = ''error'') evs"

text \<open>The notice put on the response queue before a tool runs.\<close>

definition tool_notice :: "env \<Rightarrow> string \<Rightarrow> json \<Rightarrow> string \<times> string option" where
  "tool_notice env tool_name arguments =
     (''tool'', Some (wrench @ '' Calling tool: '' @ tool_name @ '' with ''
                      @ format_arguments env arguments))"

section \<open>Concrete scenarios\<close>

text \<open>The client as \<^verbatim>\<open>__init__\<close> leaves it, and once the backend and a provider command
  are set, with an empty catalogue.\<close>

definition new_client :: client where
  "new_client =
     \<lparr>openai_client = False, mcp_server_params = None, mcp_tools = [], chat_history = [],
      message_queue = [], response_queue = [], status_queue = [], input_entry = [],
      chat_display = []\<rparr>"

definition ready_client :: client where
  "ready_client =
     new_client\<lparr>openai_client := True,
                mcp_server_params := Some [''python'', ''wifi_diagnostics_mcp.py'']\<rparr>"

definition plain_reply :: "string \<Rightarrow> completion" where
  "plain_reply text = \<lparr>choices = [\<lparr>content = Some text, tool_calls = None\<rparr>]\<rparr>"

definition tool_reply :: "tool_call list \<Rightarrow> completion" where
  "tool_reply tcs = \<lparr>choices = [\<lparr>content = None, tool_calls = Some tcs\<rparr>]\<rparr>"

definition get_status_call :: tool_call where
  "get_status_call =
     \<lparr>call_id = ''call_1'', function_name = ''get_status'', function_arguments = ''{}''\<rparr>"

text \<open>A backend that always answers 4, a parser that accepts \<^verbatim>\<open>{}\<close> only, and a provider
  that answers every call with the one text part pong.\<close>

definition env_plain :: env where
  "env_plain =
     \<lparr>create = (\<lambda>msgs tools choice. Returned (plain_reply ''4'')),
      json_loads = (\<lambda>text. if text = ''{}'' then Inr (JObj [])
                            else Inl (Exception ''Expecting value: line 1 column 1 (char 0)'')),
      format_arguments = (\<lambda>arguments. ''{}''),
      stdio_client = (\<lambda>params. Returned ()),
      initialize = Returned (),
      call_tool = (\<lambda>tool_name arguments. Returned [TextContent ''pong'']),
      aexit = Returned ()\<rparr>"

text \<open>A backend that asks for the given tool calls while the transcript does not end
  with a tool entry, and answers done once it does.\<close>

definition create_with_tools ::
  "tool_call list \<Rightarrow> entry list \<Rightarrow> json list option \<Rightarrow> string option \<Rightarrow> completion outcome" where
  "create_with_tools tcs msgs tools choice =
     (case rev msgs of
        Dict_tool i c # _ \<Rightarrow> Returned (plain_reply ''done'')
      | _ \<Rightarrow> Returned (tool_reply tcs))"

definition env_tool :: env where
  "env_tool = env_plain\<lparr>create := create_with_tools [get_status_call]\<rparr>"

text \<open>The ready client with a catalogue of one tool.\<close>

definition catalog_client :: client where
  "catalog_client =
     ready_client\<lparr>mcp_tools := [(''get_status'',
        \<lparr>description = Some ''Check current WiFi adapter status'', inputSchema = None\<rparr>)]\<rparr>"


text \<open>Providers that answer with two text parts, that never answer a tool call, and
  whose connection fails during the tool call.\<close>

definition env_two_parts :: env where
  "env_two_parts =
     env_plain\<lparr>call_tool := (\<lambda>tool_name arguments.
        Returned [TextContent ''Signal: 80%'', TextContent ''SSID: home''])\<rparr>"

definition env_silent :: env where
  "env_silent = env_tool\<lparr>call_tool := (\<lambda>tool_name arguments. Hung)\<rparr>"

definition env_broken :: env where
  "env_broken =
     env_tool\<lparr>call_tool := (\<lambda>tool_name arguments. Raised (Exception ''Connection closed''))\<rparr>"



text \<open>A backend whose tool call carries arguments that are not JSON.\<close>

definition bad_call :: tool_call where
  "bad_call =
     \<lparr>call_id = ''call_1'', function_name = ''get_status'', function_arguments = ''{oops''\<rparr>"

definition env_bad_arguments :: env where
  "env_bad_arguments = env_plain\<lparr>create := create_with_tools [bad_call]\<rparr>"

section \<open>The tool broker and the loop over tool calls: auxiliary facts\<close>

lemma execute_mcp_tool_response_queue [simp]:
  "execute_mcp_tool env (s\<lparr>response_queue := q\<rparr>) tool_name arguments =
   execute_mcp_tool env s tool_name arguments"
  by (simp add: execute_mcp_tool_def)

lemma execute_mcp_tool_chat_history [simp]:
  "execute_mcp_tool env (s\<lparr>chat_history := h\<rparr>) tool_name arguments =
   execute_mcp_tool env s tool_name arguments"
  by (simp add: execute_mcp_tool_def)

lemma with_session_answers:
  "answers env \<Longrightarrow> with_session env params (session_body env tool_name arguments) \<noteq> Hung"
  by (auto simp: answers_def with_session_def session_body_def split: outcome.splits)

lemma execute_mcp_tool_answers:
  "answers env \<Longrightarrow> \<exists>text. execute_mcp_tool env s tool_name arguments = Some text"
  using with_session_answers [of env "mcp_server_params s" tool_name arguments]
  by (auto simp: execute_mcp_tool_def split: outcome.splits)

lemma tool_calls_loop_raise:
  "json_loads env (function_arguments tc) = Inl e \<Longrightarrow>
   tool_calls_loop env s (tc # rest) = Throws e s"
  by simp

lemma tool_calls_loop_stuck:
  "json_loads env (function_arguments tc) = Inr arguments \<Longrightarrow>
   execute_mcp_tool env s (function_name tc) arguments = None \<Longrightarrow>
   tool_calls_loop env s (tc # rest) = Stuck"
  by (simp add: Let_def)

lemma tool_calls_loop_step:
  "json_loads env (function_arguments tc) = Inr arguments \<Longrightarrow>
   execute_mcp_tool env s (function_name tc) arguments = Some tool_result \<Longrightarrow>
   tool_calls_loop env s (tc # rest) =
     tool_calls_loop env
       (s\<lparr>response_queue := response_queue s @ [tool_notice env (function_name tc) arguments],
          chat_history := chat_history s @ [Dict_tool (call_id tc) tool_result]\<rparr>)
       rest"
  by (simp add: Let_def tool_notice_def)

declare tool_calls_loop.simps(2) [simp del]

lemma tool_calls_loop_Done:
  "\<forall>tc \<in> set tcs. json_loads env (function_arguments tc) = Inr (args tc) \<Longrightarrow>
   \<forall>tc \<in> set tcs. execute_mcp_tool env s (function_name tc) (args tc) = Some (res tc) \<Longrightarrow>
   tool_calls_loop env s tcs =
     Done (s\<lparr>response_queue := response_queue s @
               map (\<lambda>tc. tool_notice env (function_name tc) (args tc)) tcs,
             chat_history := chat_history s @ map (\<lambda>tc. Dict_tool (call_id tc) (res tc)) tcs\<rparr>)"
proof (induction tcs arbitrary: s)
  case Nil
  show ?case by simp
next
  case (Cons tc tcs)
  let ?s = "s\<lparr>response_queue := response_queue s @ [tool_notice env (function_name tc) (args tc)],
              chat_history := chat_history s @ [Dict_tool (call_id tc) (res tc)]\<rparr>"
  have step: "tool_calls_loop env s (tc # tcs) = tool_calls_loop env ?s tcs"
    using Cons.prems by (intro tool_calls_loop_step) simp_all
  have "\<forall>tc \<in> set tcs. execute_mcp_tool env ?s (function_name tc) (args tc) = Some (res tc)"
    using Cons.prems(2) by simp
  with Cons.IH [of ?s] Cons.prems(1) show ?case
    unfolding step by simp
qed

lemma tool_calls_loop_reached:
  "reached (tool_calls_loop env s tcs) = Some s' \<Longrightarrow>
   message_queue s' = message_queue s \<and> openai_client s' = openai_client s
   \<and> mcp_server_params s' = mcp_server_params s \<and> mcp_tools s' = mcp_tools s
   \<and> error_events (response_queue s') = error_events (response_queue s)
   \<and> user_entries (chat_history s') = user_entries (chat_history s)"
proof (induction tcs arbitrary: s)
  case Nil
  then show ?case by simp
next
  case (Cons tc tcs)
  show ?case
  proof (cases "json_loads env (function_arguments tc)")
    case (Inl e)
    with Cons.prems show ?thesis by (simp add: tool_calls_loop_raise)
  next
    case (Inr arguments)
    show ?thesis
    proof (cases "execute_mcp_tool env s (function_name tc) arguments")
      case None
      with Inr Cons.prems show ?thesis by (simp add: tool_calls_loop_stuck)
    next
      case (Some r)
      let ?s = "s\<lparr>response_queue := response_queue s @ [tool_notice env (function_name tc) arguments],
                  chat_history := chat_history s @ [Dict_tool (call_id tc) r]\<rparr>"
      from Inr Some Cons.prems have "reached (tool_calls_loop env ?s tcs) = Some s'"
        by (simp add: tool_calls_loop_step)
      from Cons.IH [OF this] show ?thesis
        by (simp add: error_events_def user_entries_def tool_notice_def)
    qed
  qed
qed

lemma tool_calls_loop_answers:
  "answers env \<Longrightarrow> tool_calls_loop env s tcs \<noteq> Stuck"
proof (induction tcs arbitrary: s)
  case Nil
  show ?case by simp
next
  case (Cons tc tcs)
  show ?case
  proof (cases "json_loads env (function_arguments tc)")
    case (Inl e)
    then show ?thesis by (simp add: tool_calls_loop_raise)
  next
    case (Inr arguments)
    obtain r where "execute_mcp_tool env s (function_name tc) arguments = Some r"
      using execute_mcp_tool_answers [OF Cons.prems] by blast
    with Inr Cons.IH [OF Cons.prems] show ?thesis
      by (simp add: tool_calls_loop_step)
  qed
qed

section \<open>One exchange: auxiliary facts\<close>

lemma final_response_reached:
  "reached (final_response env s) = Some s' \<Longrightarrow>
   message_queue s' = message_queue s \<and> openai_client s' = openai_client s
   \<and> mcp_server_params s' = mcp_server_params s \<and> mcp_tools s' = mcp_tools s
   \<and> error_events (response_queue s') = error_events (response_queue s)
   \<and> user_entries (chat_history s') = user_entries (chat_history s)"
  by (auto simp: final_response_def Let_def error_events_def user_entries_def
           split: outcome.splits sum.splits)

lemma final_response_answers:
  "answers env \<Longrightarrow> final_response env s \<noteq> Stuck"
  by (auto simp: final_response_def completions_create_def answers_def Let_def
           split: outcome.splits sum.splits)

lemma chat_try_reached:
  assumes "reached (chat_try env s m) = Some s'"
  shows "message_queue s' = message_queue s \<and> openai_client s' = openai_client s
   \<and> mcp_server_params s' = mcp_server_params s \<and> mcp_tools s' = mcp_tools s
   \<and> error_events (response_queue s') = error_events (response_queue s)
   \<and> user_entries (chat_history s') = user_entries (chat_history s) @ [Dict_user m]"
proof -
  let ?s = "s\<lparr>chat_history := chat_history s @ [Dict_user m]\<rparr>"
  have base: "user_entries (chat_history ?s) = user_entries (chat_history s) @ [Dict_user m]"
    by (simp add: user_entries_def)
  show ?thesis
  proof (cases "completions_create env ?s (request_tools ?s) (request_tool_choice (request_tools ?s))")
    case Hung
    with assms show ?thesis by (simp add: chat_try_def Let_def)
  next
    case (Raised e)
    with assms base show ?thesis by (auto simp: chat_try_def Let_def)
  next
    case (Returned response)
    show ?thesis
    proof (cases "first_message response")
      case (Inl e)
      with Returned assms base show ?thesis by (auto simp: chat_try_def Let_def)
    next
      case (Inr message_obj)
      show ?thesis
      proof (cases "\<exists>tc tcs. tool_calls message_obj = Some (tc # tcs)")
        case False
        with Returned Inr assms base show ?thesis
          by (auto simp: chat_try_def Let_def error_events_def user_entries_def
                   split: option.splits list.splits)
      next
        case True
        then obtain tc tcs where tcs: "tool_calls message_obj = Some (tc # tcs)" by blast
        let ?s1 = "?s\<lparr>chat_history := chat_history ?s @ [Message_obj message_obj]\<rparr>"
        have s1: "user_entries (chat_history ?s1) = user_entries (chat_history s) @ [Dict_user m]"
          by (simp add: user_entries_def)
        show ?thesis
        proof (cases "tool_calls_loop env ?s1 (tc # tcs)")
          case Stuck
          with Returned Inr tcs assms show ?thesis by (simp add: chat_try_def Let_def)
        next
          case (Throws e s2)
          then have "reached (tool_calls_loop env ?s1 (tc # tcs)) = Some s2" by simp
          from tool_calls_loop_reached [OF this] s1
          have "message_queue s2 = message_queue s \<and> openai_client s2 = openai_client s
            \<and> mcp_server_params s2 = mcp_server_params s \<and> mcp_tools s2 = mcp_tools s
            \<and> error_events (response_queue s2) = error_events (response_queue s)
            \<and> user_entries (chat_history s2) = user_entries (chat_history s) @ [Dict_user m]"
            by simp
          moreover from Returned Inr tcs Throws assms have "s' = s2"
            by (simp add: chat_try_def Let_def)
          ultimately show ?thesis by simp
        next
          case (Done s2)
          then have "reached (tool_calls_loop env ?s1 (tc # tcs)) = Some s2" by simp
          from tool_calls_loop_reached [OF this] s1
          have s2: "message_queue s2 = message_queue s \<and> openai_client s2 = openai_client s
            \<and> mcp_server_params s2 = mcp_server_params s \<and> mcp_tools s2 = mcp_tools s
            \<and> error_events (response_queue s2) = error_events (response_queue s)
            \<and> user_entries (chat_history s2) = user_entries (chat_history s) @ [Dict_user m]"
            by simp
          from Returned Inr tcs Done assms have "reached (final_response env s2) = Some s'"
            by (simp add: chat_try_def Let_def)
          from final_response_reached [OF this] s2 show ?thesis by simp
        qed
      qed
    qed
  qed
qed

lemma chat_try_answers:
  assumes "answers env"
  shows "chat_try env s m \<noteq> Stuck"
proof -
  have "\<And>msgs tools choice. create env msgs tools choice \<noteq> Hung"
    using assms by (simp add: answers_def)
  then have c: "\<And>s tools choice. completions_create env s tools choice \<noteq> Hung"
    by (simp add: completions_create_def)
  show ?thesis
    using c tool_calls_loop_answers [OF assms] final_response_answers [OF assms]
    by (auto simp: chat_try_def Let_def
             split: outcome.splits sum.splits option.splits list.splits flow.splits)
qed

lemma chat_with_gpt_answers:
  "answers env \<Longrightarrow> \<exists>s'. chat_with_gpt env s m = Some s'"
  using chat_try_answers [of env s m]
  by (auto simp: chat_with_gpt_def split: flow.splits)

lemma chat_with_gpt_reached:
  assumes "chat_with_gpt env s m = Some s'"
  shows "message_queue s' = message_queue s \<and> openai_client s' = openai_client s
   \<and> mcp_server_params s' = mcp_server_params s \<and> mcp_tools s' = mcp_tools s
   \<and> user_entries (chat_history s') = user_entries (chat_history s) @ [Dict_user m]"
proof (cases "chat_try env s m")
  case Stuck
  with assms show ?thesis by (simp add: chat_with_gpt_def)
next
  case (Done s1)
  then have "reached (chat_try env s m) = Some s1" by simp
  from chat_try_reached [OF this] Done assms show ?thesis
    by (simp add: chat_with_gpt_def)
next
  case (Throws e s1)
  then have "reached (chat_try env s m) = Some s1" by simp
  from chat_try_reached [OF this] Throws assms show ?thesis
    by (auto simp: chat_with_gpt_def)
qed

section \<open>The worker loop: auxiliary facts\<close>

lemma worker_iteration_empty:
  "message_queue s = [] \<Longrightarrow> worker_iteration env s = Some (False, s)"
  by (simp add: worker_iteration_def)

lemma worker_iteration_quit:
  "message_queue s = ''QUIT'' # q \<Longrightarrow>
   worker_iteration env s = Some (True, s\<lparr>message_queue := q\<rparr>)"
  by (simp add: worker_iteration_def)

lemma worker_iteration_message:
  "message_queue s = m # q \<Longrightarrow> m \<noteq> ''QUIT'' \<Longrightarrow>
   chat_with_gpt env (s\<lparr>message_queue := q\<rparr>) m = Some s' \<Longrightarrow>
   worker_iteration env s = Some (False, s')"
  by (simp add: worker_iteration_def)

lemma put_messages_nothing [simp]: "put_messages [] s = s"
  by (simp add: put_messages_def)

lemma async_worker_idle:
  "message_queue s = [] \<Longrightarrow> async_worker env (replicate n [] @ sched) s = async_worker env sched s"
  by (induction n) (simp_all add: worker_iteration_empty)

lemma set_tl_sub: "set (tl xs) \<subseteq> set xs"
  by (cases xs) auto

text \<open>One pass keeps the user entries followed by the waiting messages.\<close>

lemma worker_iteration_pending:
  assumes "answers env" and "''QUIT'' \<notin> set (message_queue s)"
  shows "\<exists>s'. worker_iteration env s = Some (False, s')
           \<and> user_entries (chat_history s') @ map Dict_user (message_queue s') =
             user_entries (chat_history s) @ map Dict_user (message_queue s)
           \<and> message_queue s' = tl (message_queue s)"
proof (cases "message_queue s")
  case Nil
  then show ?thesis by (simp add: worker_iteration_empty)
next
  case (Cons m q)
  with assms(2) have m: "m \<noteq> ''QUIT''" by auto
  obtain s' where s': "chat_with_gpt env (s\<lparr>message_queue := q\<rparr>) m = Some s'"
    using chat_with_gpt_answers [OF assms(1)] by blast
  from chat_with_gpt_reached [OF s'] worker_iteration_message [OF Cons m s'] Cons
  show ?thesis by simp
qed

lemma async_worker_pending:
  assumes "answers env"
  shows "''QUIT'' \<notin> set (message_queue s) \<Longrightarrow> ''QUIT'' \<notin> set (concat sched) \<Longrightarrow>
         \<exists>s'. async_worker env sched s = Some (False, s')
           \<and> user_entries (chat_history s') @ map Dict_user (message_queue s') =
             user_entries (chat_history s) @ map Dict_user (message_queue s @ concat sched)
           \<and> set (message_queue s') \<subseteq> set (message_queue s) \<union> set (concat sched)
           \<and> length (message_queue s') \<le> length (message_queue s) + length (concat sched)"
proof (induction sched arbitrary: s)
  case Nil
  then show ?case by simp
next
  case (Cons arrived sched)
  let ?p = "put_messages arrived s"
  have q: "''QUIT'' \<notin> set (message_queue ?p)"
    using Cons.prems by (simp add: put_messages_def)
  from worker_iteration_pending [OF assms q]
  obtain s1 where s1: "worker_iteration env ?p = Some (False, s1)"
    and inv: "user_entries (chat_history s1) @ map Dict_user (message_queue s1) =
              user_entries (chat_history ?p) @ map Dict_user (message_queue ?p)"
    and tl: "message_queue s1 = tl (message_queue ?p)"
    by blast
  have sub: "set (message_queue s1) \<subseteq> set (message_queue s) \<union> set arrived"
    using tl set_tl_sub [of "message_queue ?p"] by (auto simp: put_messages_def)
  have len: "length (message_queue s1) \<le> length (message_queue s) + length arrived"
    using tl by (simp add: put_messages_def)
  have q1: "''QUIT'' \<notin> set (message_queue s1)"
    using sub Cons.prems by auto
  have q2: "''QUIT'' \<notin> set (concat sched)"
    using Cons.prems by simp
  from Cons.IH [OF q1 q2]
  obtain s' where s': "async_worker env sched s1 = Some (False, s')"
    and inv': "user_entries (chat_history s') @ map Dict_user (message_queue s') =
               user_entries (chat_history s1) @ map Dict_user (message_queue s1 @ concat sched)"
    and sub': "set (message_queue s') \<subseteq> set (message_queue s1) \<union> set (concat sched)"
    and len': "length (message_queue s') \<le> length (message_queue s1) + length (concat sched)"
    by blast
  have run: "async_worker env (arrived # sched) s = Some (False, s')"
    using s1 s' by simp
  have "user_entries (chat_history s') @ map Dict_user (message_queue s') =
        user_entries (chat_history s) @ map Dict_user (message_queue s @ concat (arrived # sched))"
    using inv inv' by (simp add: put_messages_def)
  moreover have "set (message_queue s') \<subseteq> set (message_queue s) \<union> set (concat (arrived # sched))"
    using sub sub' by auto
  moreover have "length (message_queue s') \<le> length (message_queue s) + length (concat (arrived # sched))"
    using len len' by simp
  ultimately show ?case using run by blast
qed

lemma async_worker_drain:
  assumes "answers env"
  shows "''QUIT'' \<notin> set (message_queue s) \<Longrightarrow> length (message_queue s) \<le> n \<Longrightarrow>
         \<exists>s'. async_worker env (replicate n []) s = Some (False, s')
           \<and> message_queue s' = []
           \<and> user_entries (chat_history s') =
             user_entries (chat_history s) @ map Dict_user (message_queue s)"
proof (induction n arbitrary: s)
  case 0
  then show ?case by simp
next
  case (Suc n)
  from worker_iteration_pending [OF assms Suc.prems(1)]
  obtain s1 where s1: "worker_iteration env s = Some (False, s1)"
    and inv: "user_entries (chat_history s1) @ map Dict_user (message_queue s1) =
              user_entries (chat_history s) @ map Dict_user (message_queue s)"
    and tl: "message_queue s1 = tl (message_queue s)"
    by blast
  have q1: "''QUIT'' \<notin> set (message_queue s1)"
    using tl Suc.prems(1) set_tl_sub [of "message_queue s"] by auto
  have l1: "length (message_queue s1) \<le> n"
    using tl Suc.prems(2) by simp
  from Suc.IH [OF q1 l1]
  obtain s' where "async_worker env (replicate n []) s1 = Some (False, s')"
    and "message_queue s' = []"
    and "user_entries (chat_history s') =
         user_entries (chat_history s1) @ map Dict_user (message_queue s1)"
    by blast
  with s1 inv show ?case by simp
qed

lemma async_worker_append:
  "async_worker env sched s = Some (False, s1) \<Longrightarrow>
   async_worker env (sched @ later) s = async_worker env later s1"
proof (induction sched arbitrary: s)
  case Nil
  then show ?case by simp
next
  case (Cons arrived sched)
  then show ?case
    by (auto split: option.splits if_splits)
qed

section \<open>Exchanges with tool calls: auxiliary facts\<close>

lemma request_tools_chat_history [simp]:
  "request_tools (s\<lparr>chat_history := h\<rparr>) = request_tools s"
  by (simp add: request_tools_def mcp_tools_to_openai_format_def)

lemma chat_try_tool_calls:
  assumes "openai_client s"
    and "create env (chat_history s @ [Dict_user m]) (request_tools s)
           (request_tool_choice (request_tools s)) = Returned response"
    and "first_message response = Inr message_obj"
    and "tool_calls message_obj = Some tcs" and "tcs \<noteq> []"
    and "\<forall>c \<in> set tcs. json_loads env (function_arguments c) = Inr (args c)"
    and "\<forall>c \<in> set tcs. execute_mcp_tool env s (function_name c) (args c) = Some (res c)"
  shows "chat_try env s m =
           final_response env
             (s\<lparr>response_queue := response_queue s @
                    map (\<lambda>c. tool_notice env (function_name c) (args c)) tcs,
                chat_history := chat_history s @ [Dict_user m, Message_obj message_obj] @
                    map (\<lambda>c. Dict_tool (call_id c) (res c)) tcs\<rparr>)"
proof -
  let ?s1 = "s\<lparr>chat_history := chat_history s @ [Dict_user m]\<rparr>"
  let ?s2 = "?s1\<lparr>chat_history := chat_history ?s1 @ [Message_obj message_obj]\<rparr>"
  obtain tc rest where tcs: "tcs = tc # rest"
    using assms(5) by (cases tcs) auto
  have first: "completions_create env ?s1 (request_tools ?s1)
                 (request_tool_choice (request_tools ?s1)) = Returned response"
    using assms(1,2) by (simp add: completions_create_def)
  have "\<forall>c \<in> set tcs. execute_mcp_tool env ?s2 (function_name c) (args c) = Some (res c)"
    using assms(7) by simp
  from tool_calls_loop_Done [OF assms(6) this]
  have loop: "tool_calls_loop env ?s2 tcs =
     Done (s\<lparr>response_queue := response_queue s @
                    map (\<lambda>c. tool_notice env (function_name c) (args c)) tcs,
                chat_history := chat_history s @ [Dict_user m, Message_obj message_obj] @
                    map (\<lambda>c. Dict_tool (call_id c) (res c)) tcs\<rparr>)"
    by simp
  show ?thesis
    using first assms(3,4) loop unfolding tcs
    by (simp add: chat_try_def Let_def)
qed

lemma final_response_returned:
  assumes "openai_client s"
    and "create env (chat_history s) None None = Returned final"
    and "first_message final = Inr fm"
  shows "final_response env s =
           Done (s\<lparr>chat_history := chat_history s @ [Dict_assistant (content fm)],
                   response_queue := response_queue s @ [(''assistant'', content fm)]\<rparr>)"
  using assms by (simp add: final_response_def completions_create_def Let_def)



lemma execute_mcp_tool_message_queue [simp]:
  "execute_mcp_tool env (s\<lparr>message_queue := q\<rparr>) tool_name arguments =
   execute_mcp_tool env s tool_name arguments"
  by (simp add: execute_mcp_tool_def)

lemma request_tools_message_queue [simp]:
  "request_tools (s\<lparr>message_queue := q\<rparr>) = request_tools s"
  by (simp add: request_tools_def mcp_tools_to_openai_format_def)

lemma error_events_tool_notices [simp]:
  "error_events (evs @ map (\<lambda>c. tool_notice env (f c) (g c)) tcs) = error_events evs"
  by (induction tcs rule: rev_induct) (simp_all add: error_events_def tool_notice_def)

section \<open>Where the exceptions of an exchange come from: auxiliary facts\<close>




section \<open>The worker loop and the exchange boundary\<close>




text \<open>
  Claim C2, as stated, fails: here the first completion response carries one tool call
  whose arguments are not JSON. \<^verbatim>\<open>json.loads\<close> raises inside the loop, the exchange ends
  with an error event, and the transcript holds no tool entry.
\<close>

theorem unparsed_arguments_counterexample:
  "create env_bad_arguments [Dict_user ''check wifi''] (request_tools catalog_client)
       (request_tool_choice (request_tools catalog_client)) = Returned (tool_reply [bad_call])
   \<and> map_option (\<lambda>s. (tool_entries (chat_history s), map fst (response_queue s)))
        (chat_with_gpt env_bad_arguments catalog_client ''check wifi'') = Some ([], [''error''])"
  by (simp add: chat_with_gpt_def chat_try_def completions_create_def
                first_message_def request_tools_def request_tool_choice_def
                mcp_tools_to_openai_format_def tool_calls_loop.simps(2)
                env_bad_arguments_def env_plain_def create_with_tools_def tool_reply_def
                bad_call_def catalog_client_def ready_client_def new_client_def Let_def
                tool_entries_def)

text \<open>
  Claim C2, amended. Take an exchange whose first completion response carries \<open>k \<ge> 1\<close>
  tool calls, such that \<^verbatim>\<open>json.loads\<close> accepts the arguments of each and each call of
  \<open>execute_mcp_tool\<close> returns. Then exactly \<open>k\<close> tool entries are appended, the \<open>i\<close>-th
  carrying the \<^verbatim>\<open>tool_call_id\<close> and the result of the \<open>i\<close>-th tool call of that response,
  in the order received. The exchange then makes one follow-up completion call, with no
  tools and no tool choice, on the transcript that already holds all \<open>k\<close> tool entries,
  and ends as that call does.
\<close>

theorem tool_entries_before_follow_up:
  assumes "openai_client s"
    and "create env (chat_history s @ [Dict_user m]) (request_tools s)
           (request_tool_choice (request_tools s)) = Returned response"
    and "first_message response = Inr message_obj"
    and "tool_calls message_obj = Some tcs" and "tcs \<noteq> []"
    and "\<forall>c \<in> set tcs. json_loads env (function_arguments c) = Inr (args c)"
    and "\<forall>c \<in> set tcs. execute_mcp_tool env s (function_name c) (args c) = Some (res c)"
  shows "(let transcript = chat_history s @ [Dict_user m, Message_obj message_obj] @
                             map (\<lambda>c. Dict_tool (call_id c) (res c)) tcs;
              s' = s\<lparr>response_queue := response_queue s @
                          map (\<lambda>c. tool_notice env (function_name c) (args c)) tcs,
                      chat_history := transcript\<rparr>
          in tool_entries transcript =
               tool_entries (chat_history s) @ map (\<lambda>c. Dict_tool (call_id c) (res c)) tcs
           \<and> chat_try env s m =
               (case create env transcript None None of
                  Hung \<Rightarrow> Stuck
                | Raised e \<Rightarrow> Throws e s'
                | Returned final \<Rightarrow>
                    (case first_message final of
                       Inl e \<Rightarrow> Throws e s'
                     | Inr fm \<Rightarrow>
                         Done (s'\<lparr>chat_history := transcript @ [Dict_assistant (content fm)],
                                  response_queue := response_queue s' @
                                    [(''assistant'', content fm)]\<rparr>))))"
proof -
  let ?transcript = "chat_history s @ [Dict_user m, Message_obj message_obj] @
                       map (\<lambda>c. Dict_tool (call_id c) (res c)) tcs"
  let ?s' = "s\<lparr>response_queue := response_queue s @
                     map (\<lambda>c. tool_notice env (function_name c) (args c)) tcs,
                 chat_history := ?transcript\<rparr>"
  have entries: "tool_entries ?transcript =
        tool_entries (chat_history s) @ map (\<lambda>c. Dict_tool (call_id c) (res c)) tcs"
    by (simp add: tool_entries_def)
  have "final_response env ?s' =
               (case create env ?transcript None None of
                  Hung \<Rightarrow> Stuck
                | Raised e \<Rightarrow> Throws e ?s'
                | Returned final \<Rightarrow>
                    (case first_message final of
                       Inl e \<Rightarrow> Throws e ?s'
                     | Inr fm \<Rightarrow>
                         Done (?s'\<lparr>chat_history := ?transcript @ [Dict_assistant (content fm)],
                                  response_queue := response_queue ?s' @
                                    [(''assistant'', content fm)]\<rparr>)))"
    using assms(1)
    by (simp add: final_response_def completions_create_def Let_def
             split: outcome.split sum.split)
  with chat_try_tool_calls [OF assms] entries show ?thesis
    unfolding Let_def by simp
qed

theorem tool_entries_before_follow_up_witness:
  "tool_entries [Dict_user ''check wifi'', Message_obj \<lparr>content = None, tool_calls = Some [get_status_call]\<rparr>,
                 Dict_tool ''call_1'' ''pong''] = [Dict_tool ''call_1'' ''pong'']
   \<and> chat_try env_tool catalog_client ''check wifi'' =
       Done (catalog_client
              \<lparr>response_queue := [tool_notice env_tool ''get_status'' (JObj []),
                                  (''assistant'', Some ''done'')],
               chat_history := [Dict_user ''check wifi'',
                                Message_obj \<lparr>content = None, tool_calls = Some [get_status_call]\<rparr>,
                                Dict_tool ''call_1'' ''pong'', Dict_assistant (Some ''done'')]\<rparr>)"
proof -
  let ?obj = "\<lparr>content = None, tool_calls = Some [get_status_call]\<rparr>"
  have a: "openai_client catalog_client"
    by (simp add: catalog_client_def ready_client_def)
  have b: "create env_tool (chat_history catalog_client @ [Dict_user ''check wifi''])
             (request_tools catalog_client) (request_tool_choice (request_tools catalog_client)) =
           Returned (tool_reply [get_status_call])"
    by (simp add: env_tool_def create_with_tools_def catalog_client_def ready_client_def
                  new_client_def)
  have c: "first_message (tool_reply [get_status_call]) = Inr ?obj"
    by (simp add: first_message_def tool_reply_def)
  have d: "tool_calls ?obj = Some [get_status_call]"
    by simp
  have e: "[get_status_call] \<noteq> []"
    by simp
  have f: "\<forall>c \<in> set [get_status_call]. json_loads env_tool (function_arguments c) = Inr (JObj [])"
    by (simp add: env_tool_def env_plain_def get_status_call_def)
  have g: "\<forall>c \<in> set [get_status_call].
             execute_mcp_tool env_tool catalog_client (function_name c) (JObj []) = Some ''pong''"
    by (simp add: execute_mcp_tool_def with_session_def session_body_def env_tool_def
                  env_plain_def)
  have h: "create env_tool
             (chat_history catalog_client @ [Dict_user ''check wifi'', Message_obj ?obj] @
              map (\<lambda>c. Dict_tool (call_id c) ''pong'') [get_status_call]) None None =
           Returned (plain_reply ''done'')"
    by (simp add: env_tool_def create_with_tools_def)
  have i: "first_message (plain_reply ''done'') = Inr \<lparr>content = Some ''done'', tool_calls = None\<rparr>"
    by (simp add: first_message_def plain_reply_def)
  from tool_entries_before_follow_up [OF a b c d e f g] show ?thesis
    unfolding Let_def h
    by (simp add: i get_status_call_def catalog_client_def ready_client_def new_client_def
                  tool_entries_def)
qed

text \<open>
  Claim C3, as stated, fails: the client sets no time limit on its external calls. Here
  two messages are queued and the provider never answers the tool call of the first
  exchange; the worker does not return from the pass that runs that exchange, so no
  transcript with two user entries results.
\<close>

theorem stuck_exchange_counterexample:
  "''QUIT'' \<notin> set [''check wifi'', ''again'']
   \<and> async_worker env_silent ([[''check wifi'', ''again'']] @ replicate 2 []) catalog_client = None"
  by (simp add: put_messages_def worker_iteration_def chat_with_gpt_def chat_try_def
                completions_create_def first_message_def request_tools_def
                request_tool_choice_def mcp_tools_to_openai_format_def tool_calls_loop.simps(2)
                execute_mcp_tool_def with_session_def session_body_def
                env_silent_def env_tool_def env_plain_def create_with_tools_def tool_reply_def
                get_status_call_def catalog_client_def ready_client_def new_client_def Let_def)

text \<open>
  Claim C3, amended. Let messages, none of them the shutdown sentinel, be put on the
  inbound queue at any moments (a schedule of arrivals between the polls of the worker),
  starting from an empty queue, and let every external call return or raise. Once the
  worker has made as many further passes as there are messages, the loop is still
  running and the user entries of the transcript are the ones it had before followed by
  one user entry for each message, in the order of arrival.
\<close>

theorem user_entries_in_arrival_order:
  assumes "answers env" and "message_queue s = []" and "''QUIT'' \<notin> set (concat sched)"
    and "length (concat sched) \<le> n"
  shows "\<exists>s'. async_worker env (sched @ replicate n []) s = Some (False, s')
           \<and> user_entries (chat_history s') =
             user_entries (chat_history s) @ map Dict_user (concat sched)"
proof -
  from async_worker_pending [OF assms(1), of s sched] assms(2,3)
  obtain s1 where s1: "async_worker env sched s = Some (False, s1)"
    and inv: "user_entries (chat_history s1) @ map Dict_user (message_queue s1) =
              user_entries (chat_history s) @ map Dict_user (concat sched)"
    and sub: "set (message_queue s1) \<subseteq> set (concat sched)"
    and len: "length (message_queue s1) \<le> length (concat sched)"
    by auto
  have q1: "''QUIT'' \<notin> set (message_queue s1)"
    using sub assms(3) by auto
  have l1: "length (message_queue s1) \<le> n"
    using len assms(4) by simp
  from async_worker_drain [OF assms(1) q1 l1]
  obtain s' where "async_worker env (replicate n []) s1 = Some (False, s')"
    and "user_entries (chat_history s') =
         user_entries (chat_history s1) @ map Dict_user (message_queue s1)"
    by blast
  with inv async_worker_append [OF s1, of "replicate n []"] show ?thesis by simp
qed


theorem user_entries_in_arrival_order_witness:
  "\<exists>s'. async_worker env_plain ([[''hi''], [], [''there'', ''again'']] @ replicate 3 []) ready_client
           = Some (False, s')
        \<and> user_entries (chat_history s') =
          [Dict_user ''hi'', Dict_user ''there'', Dict_user ''again'']"
proof -
  have a: "answers env_plain"
    by (simp add: answers_def env_plain_def)
  have b: "message_queue ready_client = []"
    by (simp add: ready_client_def new_client_def)
  have c: "''QUIT'' \<notin> set (concat [[''hi''], [], [''there'', ''again'']])"
    by simp
  have d: "length (concat [[''hi''], [], [''there'', ''again'']]) \<le> (3::nat)"
    by simp
  from user_entries_in_arrival_order [OF a b c d] show ?thesis
    by (simp add: ready_client_def new_client_def user_entries_def)
qed

text \<open>
  Claim C8. The sentinel is looked for only when the worker polls the queue. If it is
  the next message in line behind a message \<open>m\<close>, having been queued before the exchange
  of \<open>m\<close> began or while it ran, the loop ends at the poll after that exchange, in the
  state the complete call of \<open>chat_with_gpt\<close> returned; as long as that call has not
  returned, the loop has not ended. If the sentinel arrives while the worker is idle,
  after any number of idle passes, the loop ends at the first poll that follows, with
  nothing else changed.
\<close>

theorem shutdown_between_exchanges:
  assumes "m \<noteq> ''QUIT''" and "q @ arrived = ''QUIT'' # later"
  shows "async_worker env ([] # arrived # sched) (s\<lparr>message_queue := m # q\<rparr>) =
           (case chat_with_gpt env (s\<lparr>message_queue := q\<rparr>) m of
              None \<Rightarrow> None
            | Some s1 \<Rightarrow> Some (True, s1\<lparr>message_queue := later\<rparr>))
       \<and> async_worker env (replicate n [] @ (''QUIT'' # waiting) # sched') (s0\<lparr>message_queue := []\<rparr>) =
           Some (True, s0\<lparr>message_queue := waiting\<rparr>)"
proof -
  have busy: "async_worker env ([] # arrived # sched) (s\<lparr>message_queue := m # q\<rparr>) =
           (case chat_with_gpt env (s\<lparr>message_queue := q\<rparr>) m of
              None \<Rightarrow> None
            | Some s1 \<Rightarrow> Some (True, s1\<lparr>message_queue := later\<rparr>))"
  proof (cases "chat_with_gpt env (s\<lparr>message_queue := q\<rparr>) m")
    case None
    then have "worker_iteration env (s\<lparr>message_queue := m # q\<rparr>) = None"
      using assms(1) by (simp add: worker_iteration_def)
    with None show ?thesis by simp
  next
    case (Some s1)
    have iter: "worker_iteration env (s\<lparr>message_queue := m # q\<rparr>) = Some (False, s1)"
      using assms(1) Some by (simp add: worker_iteration_def)
    have q1: "message_queue s1 = q"
      using chat_with_gpt_reached [OF Some] by simp
    have "message_queue (put_messages arrived s1) = ''QUIT'' # later"
      using q1 assms(2) by (simp add: put_messages_def)
    from worker_iteration_quit [OF this, of env]
    have "worker_iteration env (put_messages arrived s1) = Some (True, s1\<lparr>message_queue := later\<rparr>)"
      by (simp add: put_messages_def)
    with iter Some show ?thesis by simp
  qed
  have "async_worker env ((''QUIT'' # waiting) # sched') (s0\<lparr>message_queue := []\<rparr>) =
           Some (True, s0\<lparr>message_queue := waiting\<rparr>)"
    by (simp add: put_messages_def worker_iteration_def)
  then have idle: "async_worker env (replicate n [] @ (''QUIT'' # waiting) # sched') (s0\<lparr>message_queue := []\<rparr>) =
           Some (True, s0\<lparr>message_queue := waiting\<rparr>)"
    by (simp add: async_worker_idle)
  from busy idle show ?thesis by blast
qed

theorem shutdown_between_exchanges_witness:
  "async_worker env_plain [[], [''QUIT'']] (ready_client\<lparr>message_queue := [''hi'']\<rparr>) =
     Some (True, ready_client
             \<lparr>chat_history := [Dict_user ''hi'', Dict_assistant (Some ''4'')],
              response_queue := [(''assistant'', Some ''4'')]\<rparr>)
   \<and> async_worker env_plain (replicate 2 [] @ [[''QUIT'']]) ready_client =
       Some (True, ready_client)"
proof -
  have a: "''hi'' \<noteq> ''QUIT''" by simp
  have b: "chat_with_gpt env_plain (ready_client\<lparr>message_queue := []\<rparr>) ''hi'' =
           Some (ready_client
             \<lparr>chat_history := [Dict_user ''hi'', Dict_assistant (Some ''4'')],
              response_queue := [(''assistant'', Some ''4'')]\<rparr>)"
    by (simp add: chat_with_gpt_def chat_try_def completions_create_def first_message_def
                  request_tools_def request_tool_choice_def env_plain_def plain_reply_def
                  ready_client_def new_client_def Let_def)
  have c: "[] @ [''QUIT''] = ''QUIT'' # []" by simp
  from shutdown_between_exchanges
         [OF a c, where env = env_plain and s = ready_client and sched = "[]" and n = 2
            and waiting = "[]" and sched' = "[]" and ?s0.0 = ready_client]
  show ?thesis
    unfolding b by (simp add: ready_client_def new_client_def)
qed

text \<open>
  Claim C9. A message on the inbound queue whose text is \<^verbatim>\<open>QUIT\<close> ends the worker loop
  with no exchange: the transcript and the response queue are as before. Typing
  \<^verbatim>\<open>QUIT\<close> in the input field of a connected client puts exactly what \<^verbatim>\<open>on_closing\<close>
  puts on the queue, and the worker that polls it ends its loop.
\<close>

theorem quit_text_is_sentinel:
  "worker_iteration env (s\<lparr>message_queue := ''QUIT'' # q\<rparr>) = Some (True, s\<lparr>message_queue := q\<rparr>)
   \<and> message_queue (send_message_sync (s\<lparr>openai_client := True, input_entry := ''QUIT''\<rparr>)) =
       message_queue (on_closing s)
   \<and> (\<exists>s'. async_worker env ([] # sched)
              (send_message_sync (s\<lparr>openai_client := True, message_queue := [], input_entry := ''QUIT''\<rparr>))
            = Some (True, s')
          \<and> chat_history s' = chat_history s \<and> response_queue s' = response_queue s
          \<and> message_queue s' = [])"
  by (simp add: worker_iteration_def send_message_sync_def on_closing_def strip_def isspace_def
                display_message_def Let_def)

theorem quit_text_is_sentinel_witness:
  "worker_iteration env_plain (ready_client\<lparr>message_queue := [''QUIT'', ''hi'']\<rparr>) =
     Some (True, ready_client\<lparr>message_queue := [''hi'']\<rparr>)
   \<and> message_queue (send_message_sync (ready_client\<lparr>input_entry := ''QUIT''\<rparr>)) = [''QUIT'']"
  using quit_text_is_sentinel [where env = env_plain and s = ready_client and q = "[''hi'']"
          and sched = "[]"]
  by (simp add: ready_client_def new_client_def on_closing_def)

section \<open>The tool broker\<close>

text \<open>
  Claim C4, as stated, fails: the name \<^verbatim>\<open>ghost\<close> is not in the catalogue, and the call
  returns what the provider answered for it.
\<close>

theorem unknown_tool_counterexample:
  "''ghost'' \<notin> fst ` set (mcp_tools catalog_client)
   \<and> execute_mcp_tool env_plain catalog_client ''ghost'' (JObj []) = Some ''pong''"
  by (simp add: execute_mcp_tool_def with_session_def session_body_def env_plain_def
                catalog_client_def ready_client_def new_client_def)

text \<open>
  Claim C4, amended. \<open>execute_mcp_tool\<close> does not look the tool name up in the catalogue:
  its result is the same whatever the catalogue holds, and for every name it opens a
  provider session and forwards the call. It raises nothing: when every external call
  returns or raises, it returns a string. That string is the error text
  \<^verbatim>\<open>Error executing tool <name>: <reason>\<close> when the session cannot be opened, and the
  text of the result parts when the provider returns some.
\<close>

theorem execute_mcp_tool_ignores_catalog:
  "execute_mcp_tool env (s\<lparr>mcp_tools := catalog\<rparr>) tool_name arguments =
     execute_mcp_tool env s tool_name arguments
   \<and> (answers env \<longrightarrow> (\<exists>text. execute_mcp_tool env s tool_name arguments = Some text))
   \<and> (stdio_client env (mcp_server_params s) = Raised e \<longrightarrow>
        execute_mcp_tool env s tool_name arguments =
          Some (''Error executing tool '' @ tool_name @ '': '' @ str e))
   \<and> (stdio_client env (mcp_server_params s) = Returned u \<and> initialize env = Returned v
        \<and> call_tool env tool_name arguments = Returned (part # parts) \<and> aexit env = Returned w \<longrightarrow>
        execute_mcp_tool env s tool_name arguments =
          Some (join [CHR 0x0A] (map part_text (part # parts))))
   \<and> (with_session env (mcp_server_params s) (session_body env tool_name arguments) = Raised e' \<longrightarrow>
        execute_mcp_tool env s tool_name arguments =
          Some (''Error executing tool '' @ tool_name @ '': '' @ str e'))"
proof -
  have "execute_mcp_tool env (s\<lparr>mcp_tools := catalog\<rparr>) tool_name arguments =
        execute_mcp_tool env s tool_name arguments"
    by (simp add: execute_mcp_tool_def)
  moreover have "answers env \<longrightarrow> (\<exists>text. execute_mcp_tool env s tool_name arguments = Some text)"
    using execute_mcp_tool_answers by blast
  moreover have "stdio_client env (mcp_server_params s) = Raised e \<longrightarrow>
        execute_mcp_tool env s tool_name arguments =
          Some (''Error executing tool '' @ tool_name @ '': '' @ str e)"
    by (simp add: execute_mcp_tool_def with_session_def)
  moreover have "stdio_client env (mcp_server_params s) = Returned u \<and> initialize env = Returned v
        \<and> call_tool env tool_name arguments = Returned (part # parts) \<and> aexit env = Returned w \<longrightarrow>
        execute_mcp_tool env s tool_name arguments =
          Some (join [CHR 0x0A] (map part_text (part # parts)))"
    by (simp add: execute_mcp_tool_def with_session_def session_body_def)
  moreover have "with_session env (mcp_server_params s) (session_body env tool_name arguments) = Raised e' \<longrightarrow>
        execute_mcp_tool env s tool_name arguments =
          Some (''Error executing tool '' @ tool_name @ '': '' @ str e')"
    by (simp add: execute_mcp_tool_def)
  ultimately show ?thesis by blast
qed

theorem execute_mcp_tool_ignores_catalog_witness:
  "execute_mcp_tool env_plain (ready_client\<lparr>mcp_tools := []\<rparr>) ''ghost'' (JObj []) =
     execute_mcp_tool env_plain ready_client ''ghost'' (JObj [])
   \<and> (\<exists>text. execute_mcp_tool env_plain ready_client ''ghost'' (JObj []) = Some text)
   \<and> execute_mcp_tool env_plain ready_client ''ghost'' (JObj []) = Some ''pong''"
proof -
  have a: "answers env_plain"
    by (simp add: answers_def env_plain_def)
  have b: "stdio_client env_plain (mcp_server_params ready_client) = Returned ()
        \<and> initialize env_plain = Returned ()
        \<and> call_tool env_plain ''ghost'' (JObj []) = Returned (TextContent ''pong'' # [])
        \<and> aexit env_plain = Returned ()"
    by (simp add: env_plain_def)
  from execute_mcp_tool_ignores_catalog
         [where env = env_plain and s = ready_client and catalog = "[]"
            and tool_name = "''ghost''" and arguments = "JObj []" and e = "Exception []"
            and u = "()" and v = "()" and part = "TextContent ''pong''" and parts = "[]"
            and w = "()"] a b
  show ?thesis by simp
qed

text \<open>
  Claim C5, as stated, fails: for two text parts the result is not their concatenation;
  a line feed stands between them.
\<close>

theorem concatenation_counterexample:
  "execute_mcp_tool env_two_parts catalog_client ''get_status'' (JObj []) =
     Some (''Signal: 80%'' @ [CHR 0x0A] @ ''SSID: home'')
   \<and> execute_mcp_tool env_two_parts catalog_client ''get_status'' (JObj []) \<noteq>
     Some (concat (map part_text [TextContent ''Signal: 80%'', TextContent ''SSID: home'']))"
  by (simp add: execute_mcp_tool_def with_session_def session_body_def env_two_parts_def
                env_plain_def)

text \<open>
  Claim C5, amended. When the session and the tool call succeed, \<open>execute_mcp_tool\<close>
  returns the texts of the result parts in the provider's order (the \<^verbatim>\<open>str\<close> of a part
  without text), joined by a single line feed between consecutive parts; when the
  provider returns no part, it returns \<^verbatim>\<open>Tool executed successfully (no output)\<close>. That
  string is the content of the tool entry appended for the call.
\<close>

theorem tool_result_text:
  assumes "json_loads env (function_arguments tc) = Inr arguments"
    and "stdio_client env (mcp_server_params s) = Returned u"
    and "initialize env = Returned v"
    and "call_tool env (function_name tc) arguments = Returned parts"
    and "aexit env = Returned w"
  shows "execute_mcp_tool env s (function_name tc) arguments =
           Some (if parts = [] then ''Tool executed successfully (no output)''
                 else join [CHR 0x0A] (map part_text parts))
       \<and> tool_calls_loop env s (tc # rest) =
           tool_calls_loop env
             (s\<lparr>response_queue := response_queue s @
                    [tool_notice env (function_name tc) arguments],
                chat_history := chat_history s @
                    [Dict_tool (call_id tc)
                       (if parts = [] then ''Tool executed successfully (no output)''
                        else join [CHR 0x0A] (map part_text parts))]\<rparr>)
             rest"
proof -
  have ex: "execute_mcp_tool env s (function_name tc) arguments =
           Some (if parts = [] then ''Tool executed successfully (no output)''
                 else join [CHR 0x0A] (map part_text parts))"
    using assms(2-5) by (simp add: execute_mcp_tool_def with_session_def session_body_def)
  from tool_calls_loop_step [OF assms(1) ex] ex show ?thesis by blast
qed

theorem tool_result_text_witness:
  "execute_mcp_tool (env_plain\<lparr>call_tool := (\<lambda>tool_name arguments. Returned [])\<rparr>) catalog_client
      ''get_status'' (JObj []) = Some ''Tool executed successfully (no output)''
   \<and> tool_calls_loop (env_plain\<lparr>call_tool := (\<lambda>tool_name arguments. Returned [])\<rparr>) catalog_client
        [get_status_call] =
       Done (catalog_client
              \<lparr>response_queue := [tool_notice env_plain ''get_status'' (JObj [])],
               chat_history := [Dict_tool ''call_1'' ''Tool executed successfully (no output)'']\<rparr>)"
proof -
  let ?env = "env_plain\<lparr>call_tool := (\<lambda>tool_name arguments. Returned [])\<rparr>"
  have a: "json_loads ?env (function_arguments get_status_call) = Inr (JObj [])"
    by (simp add: env_plain_def get_status_call_def)
  have b: "stdio_client ?env (mcp_server_params catalog_client) = Returned ()"
    by (simp add: env_plain_def)
  have c: "initialize ?env = Returned ()"
    by (simp add: env_plain_def)
  have d: "call_tool ?env (function_name get_status_call) (JObj []) = Returned []"
    by (simp add: env_plain_def)
  have e: "aexit ?env = Returned ()"
    by (simp add: env_plain_def)
  from tool_result_text [OF a b c d e, of "[]"] show ?thesis
    by (simp add: get_status_call_def tool_notice_def env_plain_def catalog_client_def
                  ready_client_def new_client_def)
qed




text \<open>
  Claim C7, as stated, fails: the provider connection fails during the tool call, and
  the events of the exchange are the tool notice and the assistant reply. No event of
  kind error is put; the failure text is the content of the tool entry.
\<close>

theorem provider_failure_counterexample:
  "map_option (\<lambda>s. (map fst (response_queue s), tool_entries (chat_history s)))
     (chat_with_gpt env_broken catalog_client ''check wifi'') =
   Some ([''tool'', ''assistant''],
         [Dict_tool ''call_1'' ''Error executing tool get_status: Connection closed''])"
  by (simp add: chat_with_gpt_def chat_try_def final_response_def completions_create_def
                first_message_def request_tools_def request_tool_choice_def
                mcp_tools_to_openai_format_def tool_calls_loop.simps(2)
                execute_mcp_tool_def with_session_def session_body_def
                env_broken_def env_tool_def env_plain_def create_with_tools_def tool_reply_def
                plain_reply_def get_status_call_def catalog_client_def ready_client_def
                new_client_def Let_def tool_entries_def)

text \<open>
  Claim C7, amended. Take an exchange whose first response carries tool calls with
  arguments that parse, and let the provider connection fail during \<^verbatim>\<open>call_tool\<close> for one
  of them, \<open>tc\<close>. Then the text \<^verbatim>\<open>Error executing tool <name>: <reason>\<close>, which names the
  failing tool, is the content of the tool entry of \<open>tc\<close>, and no event of kind error is
  put for the failure: when the follow-up call returns a message, the events of the
  exchange are the tool notices and the assistant reply. The pass ends with the next
  message at the head of the queue, and the following pass runs the exchange of that
  message to its end.
\<close>

theorem provider_failure_is_tool_output:
  assumes "answers env" and "m \<noteq> ''QUIT''" and "openai_client s"
    and "create env (chat_history s @ [Dict_user m]) (request_tools s)
           (request_tool_choice (request_tools s)) = Returned response"
    and "first_message response = Inr message_obj"
    and "tool_calls message_obj = Some tcs" and "tc \<in> set tcs"
    and "\<forall>c \<in> set tcs. json_loads env (function_arguments c) = Inr (args c)"
    and "\<forall>c \<in> set tcs. execute_mcp_tool env s (function_name c) (args c) = Some (res c)"
    and "stdio_client env (mcp_server_params s) = Returned u"
    and "initialize env = Returned v"
    and "call_tool env (function_name tc) (args tc) = Raised e"
    and "aexit env = Returned w"
    and "create env (chat_history s @ [Dict_user m, Message_obj message_obj] @
                     map (\<lambda>c. Dict_tool (call_id c) (res c)) tcs) None None = Returned final"
    and "first_message final = Inr fm"
  shows "res tc = ''Error executing tool '' @ function_name tc @ '': '' @ str e
       \<and> (\<exists>s1. worker_iteration env (s\<lparr>message_queue := m # following # q\<rparr>) = Some (False, s1)
             \<and> chat_history s1 =
                 chat_history s @ [Dict_user m, Message_obj message_obj] @
                 map (\<lambda>c. Dict_tool (call_id c) (res c)) tcs @ [Dict_assistant (content fm)]
             \<and> response_queue s1 =
                 response_queue s @ map (\<lambda>c. tool_notice env (function_name c) (args c)) tcs @
                 [(''assistant'', content fm)]
             \<and> error_events (response_queue s1) = error_events (response_queue s)
             \<and> message_queue s1 = following # q
             \<and> (following \<noteq> ''QUIT'' \<longrightarrow>
                  (\<exists>s2. worker_iteration env s1 = Some (False, s2)
                     \<and> message_queue s2 = q
                     \<and> user_entries (chat_history s2) =
                         user_entries (chat_history s) @ [Dict_user m, Dict_user following])))"
proof -
  let ?s0 = "s\<lparr>message_queue := following # q\<rparr>"
  let ?transcript = "chat_history s @ [Dict_user m, Message_obj message_obj] @
                       map (\<lambda>c. Dict_tool (call_id c) (res c)) tcs"
  let ?notices = "map (\<lambda>c. tool_notice env (function_name c) (args c)) tcs"
  let ?sk = "?s0\<lparr>response_queue := response_queue ?s0 @ ?notices,
                  chat_history := chat_history ?s0 @ [Dict_user m, Message_obj message_obj] @
                    map (\<lambda>c. Dict_tool (call_id c) (res c)) tcs\<rparr>"
  let ?s1 = "?sk\<lparr>chat_history := chat_history ?sk @ [Dict_assistant (content fm)],
                  response_queue := response_queue ?sk @ [(''assistant'', content fm)]\<rparr>"
  have "execute_mcp_tool env s (function_name tc) (args tc) =
          Some (''Error executing tool '' @ function_name tc @ '': '' @ str e)"
    using assms(10-13) by (simp add: execute_mcp_tool_def with_session_def session_body_def)
  with assms(7,9) have res: "res tc = ''Error executing tool '' @ function_name tc @ '': '' @ str e"
    by auto
  have ne: "tcs \<noteq> []"
    using assms(7) by auto
  have "chat_try env ?s0 m = final_response env ?sk"
    using assms(3,4,5,6,8,9) ne
    by (intro chat_try_tool_calls [where response = response]) simp_all
  moreover have "final_response env ?sk = Done ?s1"
    using assms(3,14,15) by (intro final_response_returned [where final = final]) simp_all
  ultimately have chat: "chat_with_gpt env ?s0 m = Some ?s1"
    by (simp add: chat_with_gpt_def)
  have iter: "worker_iteration env (s\<lparr>message_queue := m # following # q\<rparr>) = Some (False, ?s1)"
    using assms(2) chat by (simp add: worker_iteration_def)
  have next_pass: "following \<noteq> ''QUIT'' \<longrightarrow>
                  (\<exists>s2. worker_iteration env ?s1 = Some (False, s2)
                     \<and> message_queue s2 = q
                     \<and> user_entries (chat_history s2) =
                         user_entries (chat_history s) @ [Dict_user m, Dict_user following])"
  proof
    assume f: "following \<noteq> ''QUIT''"
    obtain s2 where s2: "chat_with_gpt env (?s1\<lparr>message_queue := q\<rparr>) following = Some s2"
      using chat_with_gpt_answers [OF assms(1)] by blast
    have "message_queue ?s1 = following # q" by simp
    from worker_iteration_message [OF this f s2] chat_with_gpt_reached [OF s2]
    show "\<exists>s2. worker_iteration env ?s1 = Some (False, s2)
                     \<and> message_queue s2 = q
                     \<and> user_entries (chat_history s2) =
                         user_entries (chat_history s) @ [Dict_user m, Dict_user following]"
      by (simp add: user_entries_def)
  qed
  have "chat_history ?s1 = ?transcript @ [Dict_assistant (content fm)]"
    by simp
  moreover have "response_queue ?s1 = response_queue s @ ?notices @ [(''assistant'', content fm)]"
    by simp
  moreover have "error_events (response_queue ?s1) = error_events (response_queue s)"
    by (simp add: error_events_def tool_notice_def filter_map comp_def)
  moreover have "message_queue ?s1 = following # q"
    by simp
  ultimately show ?thesis
    using res iter next_pass by (intro conjI exI [of _ ?s1]) simp_all
qed

theorem provider_failure_is_tool_output_witness:
  "\<exists>s1. worker_iteration env_broken (catalog_client\<lparr>message_queue := [''check wifi'', ''again'']\<rparr>)
          = Some (False, s1)
      \<and> chat_history s1 =
          [Dict_user ''check wifi'',
           Message_obj \<lparr>content = None, tool_calls = Some [get_status_call]\<rparr>,
           Dict_tool ''call_1'' ''Error executing tool get_status: Connection closed'',
           Dict_assistant (Some ''done'')]
      \<and> map fst (response_queue s1) = [''tool'', ''assistant'']
      \<and> message_queue s1 = [''again'']
      \<and> (\<exists>s2. worker_iteration env_broken s1 = Some (False, s2)
             \<and> message_queue s2 = []
             \<and> user_entries (chat_history s2) = [Dict_user ''check wifi'', Dict_user ''again''])"
proof -
  let ?obj = "\<lparr>content = None, tool_calls = Some [get_status_call]\<rparr>"
  let ?text = "''Error executing tool get_status: Connection closed''"
  have a1: "answers env_broken"
    by (simp add: answers_def env_broken_def env_tool_def env_plain_def create_with_tools_def
             split: list.split entry.split)
  have a2: "''check wifi'' \<noteq> ''QUIT''" by simp
  have a3: "openai_client catalog_client"
    by (simp add: catalog_client_def ready_client_def)
  have a4: "create env_broken (chat_history catalog_client @ [Dict_user ''check wifi''])
             (request_tools catalog_client) (request_tool_choice (request_tools catalog_client)) =
           Returned (tool_reply [get_status_call])"
    by (simp add: env_broken_def env_tool_def create_with_tools_def catalog_client_def
                  ready_client_def new_client_def)
  have a5: "first_message (tool_reply [get_status_call]) = Inr ?obj"
    by (simp add: first_message_def tool_reply_def)
  have a6: "tool_calls ?obj = Some [get_status_call]" by simp
  have a7: "get_status_call \<in> set [get_status_call]" by simp
  have a8: "\<forall>c \<in> set [get_status_call].
              json_loads env_broken (function_arguments c) = Inr (JObj [])"
    by (simp add: env_broken_def env_tool_def env_plain_def get_status_call_def)
  have a9: "\<forall>c \<in> set [get_status_call].
              execute_mcp_tool env_broken catalog_client (function_name c) (JObj []) = Some ?text"
    by (simp add: execute_mcp_tool_def with_session_def session_body_def env_broken_def
                  env_tool_def env_plain_def get_status_call_def)
  have a10: "stdio_client env_broken (mcp_server_params catalog_client) = Returned ()"
    by (simp add: env_broken_def env_tool_def env_plain_def)
  have a11: "initialize env_broken = Returned ()"
    by (simp add: env_broken_def env_tool_def env_plain_def)
  have a12: "call_tool env_broken (function_name get_status_call) (JObj []) =
             Raised (Exception ''Connection closed'')"
    by (simp add: env_broken_def)
  have a13: "aexit env_broken = Returned ()"
    by (simp add: env_broken_def env_tool_def env_plain_def)
  have a14: "create env_broken
               (chat_history catalog_client @ [Dict_user ''check wifi'', Message_obj ?obj] @
                map (\<lambda>c. Dict_tool (call_id c) ?text) [get_status_call]) None None =
             Returned (plain_reply ''done'')"
    by (simp add: env_broken_def env_tool_def create_with_tools_def)
  have a15: "first_message (plain_reply ''done'') = Inr \<lparr>content = Some ''done'', tool_calls = None\<rparr>"
    by (simp add: first_message_def plain_reply_def)
  have f: "''again'' \<noteq> ''QUIT''" by simp
  from provider_failure_is_tool_output
         [OF a1 a2 a3 a4 a5 a6 a7 a8 a9 a10 a11 a12 a13 a14 a15,
          where following = "''again''" and q = "[]"] f
  obtain s1 where
        "worker_iteration env_broken (catalog_client\<lparr>message_queue := [''check wifi'', ''again'']\<rparr>)
          = Some (False, s1)"
    and "chat_history s1 =
                 chat_history catalog_client @ [Dict_user ''check wifi'', Message_obj ?obj] @
                 map (\<lambda>c. Dict_tool (call_id c) ?text) [get_status_call] @
                 [Dict_assistant (content \<lparr>content = Some ''done'', tool_calls = None\<rparr>)]"
    and "response_queue s1 =
                 response_queue catalog_client @
                 map (\<lambda>c. tool_notice env_broken (function_name c) (JObj [])) [get_status_call] @
                 [(''assistant'', content \<lparr>content = Some ''done'', tool_calls = None\<rparr>)]"
    and "message_queue s1 = [''again'']"
    and "\<exists>s2. worker_iteration env_broken s1 = Some (False, s2)
                     \<and> message_queue s2 = []
                     \<and> user_entries (chat_history s2) =
                         user_entries (chat_history catalog_client) @
                         [Dict_user ''check wifi'', Dict_user ''again'']"
    by blast
  then show ?thesis
    by (intro exI [of _ s1])
       (simp add: get_status_call_def tool_notice_def catalog_client_def ready_client_def
                  new_client_def user_entries_def)
qed

section \<open>The tool provider\<close>

text \<open>
  Claim C10. For every command list \<^verbatim>\<open>run_command\<close> returns a dictionary (no exception
  leaves it). Its \<^verbatim>\<open>'success'\<close> entry is a boolean that is true exactly when the
  subprocess completed within the 30 second timeout with return code 0. When the
  subprocess timed out or raised, \<^verbatim>\<open>'success'\<close> is false, an \<^verbatim>\<open>'error'\<close> string is
  present, and the \<^verbatim>\<open>'stdout'\<close> and \<^verbatim>\<open>'stderr'\<close> entries are absent.
\<close>

theorem run_command_total:
  "(\<exists>kvs b. run_command run cmd shell = JObj kvs
        \<and> map_of kvs ''success'' = Some (JBool b)
        \<and> (b \<longleftrightarrow> (\<exists>out err. run cmd shell 30 = CompletedProcess 0 out err)))
   \<and> ((\<forall>rc out err. run cmd shell 30 \<noteq> CompletedProcess rc out err) \<longrightarrow>
        dict_get (run_command run cmd shell) ''success'' = Some (JBool False)
        \<and> (\<exists>e. dict_get (run_command run cmd shell) ''error'' = Some (JStr e))
        \<and> dict_get (run_command run cmd shell) ''stdout'' = None
        \<and> dict_get (run_command run cmd shell) ''stderr'' = None)"
  by (cases "run cmd shell 30") (auto simp: run_command_def)

theorem run_command_total_witness:
  "dict_get (run_command (\<lambda>c s t. TimeoutExpired) [''netsh'', ''wlan''] False) ''success''
     = Some (JBool False)
   \<and> dict_get (run_command (\<lambda>c s t. TimeoutExpired) [''netsh'', ''wlan''] False) ''error''
     = Some (JStr ''Command timed out'')"
  using run_command_total [of "\<lambda>c s t. TimeoutExpired" "[''netsh'', ''wlan'']" False]
  by (simp add: run_command_def)

end
